theory Spec2Isabelle
  imports Main "HOL-Library.Word"
begin

section \<open>The voice assistant front end (src/App.js)\<close>

text \<open>
  The component \<open>App\<close> keeps eight pieces of React state and two refs. Every
  handler of the component is embedded as a function on a record of that state.
  An \<open>await fetch(...)\<close> splits a handler in two: the part that runs up to the
  request (\<open>_begin\<close>, which returns the request it issues, if any) and the part
  that runs when the request has settled (\<open>_resume\<close>, which takes the outcome).
  The function without suffix is the uninterrupted run of both.
\<close>

subsection \<open>Strings\<close>

text \<open>
  A property read from a parsed JSON object is either absent (\<open>undefined\<close>) or,
  in this model, a JSON string. \<open>truthy\<close> is JavaScript's truthiness on these
  two shapes, \<open>or_else\<close> is \<open>a || b\<close> with a string on the right.
\<close>

datatype js_string = Undefined | Str string

fun truthy :: "js_string \<Rightarrow> bool" where
  "truthy Undefined = False"
| "truthy (Str s) = (s \<noteq> [])"

fun or_else :: "js_string \<Rightarrow> string \<Rightarrow> string" where
  "or_else Undefined d = d"
| "or_else (Str s) d = (if s \<noteq> [] then s else d)"

text \<open>\<open>String.prototype.includes\<close>: a contiguous occurrence.\<close>

fun starts_with :: "string \<Rightarrow> string \<Rightarrow> bool" where
  "starts_with s [] = True"
| "starts_with [] (p # ps) = False"
| "starts_with (c # cs) (p # ps) = (c = p \<and> starts_with cs ps)"

fun str_includes :: "string \<Rightarrow> string \<Rightarrow> bool" where
  "str_includes [] p = (p = [])"
| "str_includes (c # cs) p = (starts_with (c # cs) p \<or> str_includes cs p)"

text \<open>The decimal rendering of a number inside a template literal.\<close>

definition digit_char :: "nat \<Rightarrow> char" where
  "digit_char d = char_of (48 + d)"

fun string_of_nat :: "nat \<Rightarrow> string" where
  "string_of_nat n =
     (if n < 10 then [digit_char n] else string_of_nat (n div 10) @ [digit_char (n mod 10)])"

declare string_of_nat.simps [simp del]

subsection \<open>Blobs\<close>

text \<open>
  A \<open>Blob\<close> is opaque binary data with a media type; \<open>new Blob(parts, {type})\<close>
  concatenates the parts in order.
\<close>

record blob =
  blob_bytes :: "8 word list"
  blob_type :: string

definition blob_size :: "blob \<Rightarrow> nat" where
  "blob_size b = length (blob_bytes b)"

definition Blob :: "blob list \<Rightarrow> string \<Rightarrow> blob" where
  "Blob blobParts t = \<lparr>blob_bytes = concat (map blob_bytes blobParts), blob_type = t\<rparr>"

subsection \<open>Requests and responses\<close>

record chat_message =
  role :: string
  parts :: "string list"

datatype request_body =
    FormData "(string \<times> blob \<times> string) list"
  | JsonObject "(string \<times> string) list"
  | JsonContents "chat_message list"

record request =
  req_url :: string
  req_method :: string
  req_headers :: "(string \<times> string) list"
  req_body :: request_body

text \<open>
  The parsed body of a response: the properties the handlers read, each one
  possibly absent. The candidates of the refinement service are nested objects
  whose inner properties may be absent as well. The model covers bodies that
  are JSON objects with string-valued \<open>message\<close>, \<open>transcription\<close>, \<open>answer\<close> and
  \<open>text\<close>, as the services' contracts have them; a body that is \<open>null\<close>, or that
  carries a number or an object in one of these places, is outside it.
\<close>

datatype part = Part (part_text: js_string)
datatype content = Content (content_parts: "part list option")
datatype candidate = Candidate (cand_content: "content option")

record json_body =
  message :: js_string
  transcription :: js_string
  answer :: js_string
  candidates :: "candidate list option"

text \<open>\<open>response.json()\<close> either rejects (with the error's message) or yields the object.\<close>

datatype json_result = JsonRejects string | JsonResolves json_body

record response =
  resp_status :: nat
  resp_statusText :: string
  resp_json :: json_result

definition ok :: "response \<Rightarrow> bool" where
  "ok r = (200 \<le> resp_status r \<and> resp_status r \<le> 299)"

text \<open>\<open>fetch\<close> either rejects (with the error's message) or resolves with a response.\<close>

datatype fetch_result = FetchRejects string | FetchResolves response

definition BACKEND_URL :: string where
  "BACKEND_URL = ''https://voice-ai-backend-euw9.onrender.com''"

subsection \<open>The state of the component\<close>

datatype recorder_state = Inactive | Recording | Paused

text \<open>
  A \<open>MediaRecorder\<close> as the component sees it: its \<open>state\<close> property and its
  \<open>onstop\<close> handler. The handler is the arrow function
  \<open>() => { sendAudioForProcessing(); }\<close> created inside \<open>startRecording\<close>; the
  \<open>sendAudioForProcessing\<close> it calls belongs to the same render as that
  \<open>startRecording\<close>, and reads the constant \<open>audioChunks\<close> of that render. So the
  handler is determined by the value of \<open>audioChunks\<close> it closes over.
\<close>

record recorder =
  rec_state :: recorder_state
  onstop_audioChunks :: "blob list"

type_synonym media_stream = nat

record app_state =
  isRecording :: bool
  audioChunks :: "blob list"
  transcribedText :: string
  refinedQuestion :: js_string
  aiAnswer :: string
  statusMessage :: string
  isLoading :: bool
  isRefining :: bool
  mediaRecorderRef :: "recorder option"
  audioStreamRef :: "media_stream option"

definition initial_state :: app_state where
  "initial_state =
     \<lparr>isRecording = False, audioChunks = [], transcribedText = [],
      refinedQuestion = Str [], aiAnswer = [],
      statusMessage = ''Click '' @ [CHR 0x22] @ ''Start Recording'' @ [CHR 0x22]
        @ '' to begin capturing tab audio.'',
      isLoading = False, isRefining = False,
      mediaRecorderRef = None, audioStreamRef = None\<rparr>"

subsection \<open>Media capture\<close>

text \<open>
  \<open>navigator.mediaDevices.getDisplayMedia\<close> resolves with a stream (the code also
  tests the resolved value for falsiness, so the model lets it be absent) or
  rejects with an error that has a name and a message.
\<close>

datatype media_result =
    MediaResolves "media_stream option"
  | MediaRejects string string

text \<open>The effect that runs on mount.\<close>

definition getDisplayMediaAudio :: "media_result \<Rightarrow> app_state \<Rightarrow> app_state" where
  "getDisplayMediaAudio m s =
     (case m of
        MediaResolves stream \<Rightarrow>
          s\<lparr>audioStreamRef := stream,
            statusMessage :=
              ''Tab/Window audio capture ready. Select a tab/window to share its its audio.''\<rparr>
      | MediaRejects name msg \<Rightarrow>
          if name = ''NotAllowedError'' \<and> str_includes msg ''permissions policy'' then
            s\<lparr>statusMessage := ''Tab/Window audio capture is blocked by browser permissions policy. Try running this app in a standalone browser tab.''\<rparr>
          else if name = ''NotAllowedError'' then
            s\<lparr>statusMessage := ''Tab/Window audio capture denied. Please allow access in browser settings (click lock icon in address bar).''\<rparr>
          else if name = ''NotFoundError'' then
            s\<lparr>statusMessage := ''No suitable audio source found. Ensure a tab/window is available for capture.''\<rparr>
          else
            s\<lparr>statusMessage := ''Failed to get audio stream. See browser console (F12) for details.''\<rparr>)"

text \<open>
  What the \<open>try\<close> block of \<open>startRecording\<close> meets: \<open>new MediaRecorder(stream)\<close>
  throws, or \<open>start(1000)\<close> throws on the recorder just stored in the ref, or
  the recorder starts.
\<close>

datatype recorder_outcome = CtorThrows | StartThrows | Started

text \<open>
  The part of \<open>startRecording\<close> after the stream check. \<open>closure_chunks\<close> is the
  constant \<open>audioChunks\<close> of the render whose \<open>startRecording\<close> is running; the
  new recorder's \<open>onstop\<close> handler closes over it.
\<close>

definition startRecording_record ::
    "blob list \<Rightarrow> recorder_outcome \<Rightarrow> app_state \<Rightarrow> app_state" where
  "startRecording_record closure_chunks outcome s =
     (let s1 = s\<lparr>audioChunks := [], transcribedText := [], refinedQuestion := Str [],
                 aiAnswer := [], isRecording := True,
                 statusMessage := ''Recording tab/window audio...'', isLoading := False\<rparr>
      in case outcome of
           Started \<Rightarrow>
             s1\<lparr>mediaRecorderRef :=
                   Some \<lparr>rec_state = Recording, onstop_audioChunks = closure_chunks\<rparr>\<rparr>
         | StartThrows \<Rightarrow>
             s1\<lparr>mediaRecorderRef :=
                   Some \<lparr>rec_state = Inactive, onstop_audioChunks = closure_chunks\<rparr>,
                statusMessage := ''Error starting recording. Ensure a tab is selected for audio sharing.'',
                isRecording := False\<rparr>
         | CtorThrows \<Rightarrow>
             s1\<lparr>statusMessage := ''Error starting recording. Ensure a tab is selected for audio sharing.'',
                isRecording := False\<rparr>)"

text \<open>
  \<open>startRecording\<close>, invoked by a click in the state \<open>s\<close>: the handler belongs to
  the render of \<open>s\<close>, so the \<open>audioChunks\<close> it closes over is \<open>audioChunks s\<close>.
\<close>

definition startRecording ::
    "media_result \<Rightarrow> recorder_outcome \<Rightarrow> app_state \<Rightarrow> app_state" where
  "startRecording m outcome s =
     (case audioStreamRef s of
        Some stream \<Rightarrow> startRecording_record (audioChunks s) outcome s
      | None \<Rightarrow>
          (let s1 = s\<lparr>statusMessage := ''Audio stream not available. Attempting to re-acquire...''\<rparr>
           in case m of
                MediaRejects name msg \<Rightarrow>
                  s1\<lparr>statusMessage := ''Cannot start recording: Failed to acquire audio stream. Check browser console.''\<rparr>
              | MediaResolves None \<Rightarrow>
                  s1\<lparr>audioStreamRef := None,
                     statusMessage := ''Cannot start recording: Still no audio stream available after re-attempt. Check browser permissions.''\<rparr>
              | MediaResolves (Some stream) \<Rightarrow>
                  startRecording_record (audioChunks s) outcome
                    (s1\<lparr>audioStreamRef := Some stream\<rparr>)))"

text \<open>The \<open>ondataavailable\<close> handler, with the functional update of the buffer.\<close>

definition ondataavailable :: "blob \<Rightarrow> app_state \<Rightarrow> app_state" where
  "ondataavailable data s =
     (if blob_size data > 0 then s\<lparr>audioChunks := audioChunks s @ [data]\<rparr> else s)"

text \<open>A sequence of \<open>dataavailable\<close> events, in the order of delivery.\<close>

fun deliver :: "blob list \<Rightarrow> app_state \<Rightarrow> app_state" where
  "deliver [] s = s"
| "deliver (data # rest) s = deliver rest (ondataavailable data s)"

text \<open>
  \<open>stopRecording\<close>. The flag returned says whether \<open>stop()\<close> was called on the
  recorder, which is what makes the platform fire the recorder's \<open>stop\<close> event
  and so run its \<open>onstop\<close> handler.
\<close>

definition stopRecording :: "app_state \<Rightarrow> app_state \<times> bool" where
  "stopRecording s =
     (case mediaRecorderRef s of
        None \<Rightarrow> (s, False)
      | Some r \<Rightarrow>
          if rec_state r = Recording then
            (s\<lparr>mediaRecorderRef := Some (r\<lparr>rec_state := Inactive\<rparr>),
               isRecording := False,
               statusMessage := ''Processing tab audio...'',
               isLoading := True\<rparr>, True)
          else (s, False))"

subsection \<open>Transcription\<close>

text \<open>
  The message of an error response: \<open>errorData\<close> is the parsed body, or
  \<open>{message: statusText}\<close> when \<open>json()\<close> rejects.
\<close>

definition error_detail :: "response \<Rightarrow> string" where
  "error_detail r =
     (let errorData_message =
            (case resp_json r of
               JsonRejects e \<Rightarrow> Str (resp_statusText r)
             | JsonResolves b \<Rightarrow> message b)
      in or_else errorData_message (resp_statusText r))"

text \<open>
  The \<open>try\<close> block after the request has settled: \<open>Inl\<close> is the message of the
  error thrown, \<open>Inr\<close> the transcription.
\<close>

definition stt_try :: "fetch_result \<Rightarrow> string + string" where
  "stt_try fr =
     (case fr of
        FetchRejects e \<Rightarrow> Inl e
      | FetchResolves sttResponse \<Rightarrow>
          if \<not> ok sttResponse then
            Inl (''STT API error: '' @ string_of_nat (resp_status sttResponse) @ '' - ''
                 @ error_detail sttResponse)
          else
            (case resp_json sttResponse of
               JsonRejects e \<Rightarrow> Inl e
             | JsonResolves sttResult \<Rightarrow>
                 Inr (or_else (transcription sttResult) ''No transcription received.'')))"

text \<open>
  \<open>sendAudioForProcessing\<close> reads \<open>audioChunks\<close> from its closure, not from the
  current state: \<open>closure_chunks\<close> is that value.
\<close>

definition sendAudioForProcessing_begin ::
    "blob list \<Rightarrow> app_state \<Rightarrow> app_state \<times> request option" where
  "sendAudioForProcessing_begin closure_chunks s =
     (let audioBlob = Blob closure_chunks ''audio/webm''
      in if blob_size audioBlob = 0 then
           (s\<lparr>statusMessage := ''No audio recorded from the tab. Please ensure audio is playing and you record for a sufficient duration.'',
              isLoading := False\<rparr>, None)
         else
           (s\<lparr>statusMessage := ''Sending tab audio for transcription...''\<rparr>,
            Some \<lparr>req_url = BACKEND_URL @ ''/api/stt'', req_method = ''POST'',
                  req_headers = [],
                  req_body = FormData [(''audio'', audioBlob, ''recording.webm'')]\<rparr>))"

definition sendAudioForProcessing_resume :: "fetch_result \<Rightarrow> app_state \<Rightarrow> app_state" where
  "sendAudioForProcessing_resume fr s =
     (let s1 =
            (case stt_try fr of
               Inr transcription_text \<Rightarrow>
                 s\<lparr>transcribedText := transcription_text,
                   statusMessage := ''Transcription received. You can now refine it or get an AI answer.''\<rparr>
             | Inl error_message \<Rightarrow>
                 if str_includes error_message ''Failed to fetch'' then
                   s\<lparr>statusMessage := ''Error: Could not connect to backend. Ensure backend is running at ''
                        @ BACKEND_URL @ '' and check CORS.''\<rparr>
                 else
                   s\<lparr>statusMessage := ''Error during transcription: '' @ error_message
                        @ ''. Please try again.''\<rparr>)
      in s1\<lparr>isLoading := False, audioChunks := []\<rparr>)"

definition sendAudioForProcessing ::
    "blob list \<Rightarrow> fetch_result \<Rightarrow> app_state \<Rightarrow> app_state \<times> request option" where
  "sendAudioForProcessing closure_chunks fr s =
     (case sendAudioForProcessing_begin closure_chunks s of
        (s1, None) \<Rightarrow> (s1, None)
      | (s1, Some req) \<Rightarrow> (sendAudioForProcessing_resume fr s1, Some req))"

text \<open>The \<open>stop\<close> event of a recorder runs the handler the recorder carries.\<close>

definition recorder_onstop ::
    "recorder \<Rightarrow> fetch_result \<Rightarrow> app_state \<Rightarrow> app_state \<times> request option" where
  "recorder_onstop r fr s = sendAudioForProcessing (onstop_audioChunks r) fr s"

subsection \<open>Answer\<close>

definition openai_try :: "fetch_result \<Rightarrow> string + string" where
  "openai_try fr =
     (case fr of
        FetchRejects e \<Rightarrow> Inl e
      | FetchResolves openaiResponse \<Rightarrow>
          if \<not> ok openaiResponse then
            Inl (''OpenAI API error: '' @ string_of_nat (resp_status openaiResponse) @ '' - ''
                 @ error_detail openaiResponse)
          else
            (case resp_json openaiResponse of
               JsonRejects e \<Rightarrow> Inl e
             | JsonResolves openaiResult \<Rightarrow>
                 Inr (or_else (answer openaiResult) ''No answer received from AI.'')))"

text \<open>
  \<open>getAiAnswer\<close> is invoked by a click in the state \<open>s\<close>, so the
  \<open>refinedQuestion\<close> and \<open>transcribedText\<close> of its closure are those of \<open>s\<close>.
  \<open>refinedQuestion || transcribedText\<close> is falsy exactly when it is the empty
  string, \<open>transcribedText\<close> being a string.
\<close>

definition getAiAnswer_begin :: "app_state \<Rightarrow> app_state \<times> request option" where
  "getAiAnswer_begin s =
     (let questionToSend = or_else (refinedQuestion s) (transcribedText s)
      in if questionToSend = [] then
           (s\<lparr>statusMessage := ''Please transcribe audio or refine a question first.''\<rparr>, None)
         else
           (s\<lparr>isLoading := True, statusMessage := ''Sending question to AI...'',
              aiAnswer := []\<rparr>,
            Some \<lparr>req_url = BACKEND_URL @ ''/api/openai'', req_method = ''POST'',
                  req_headers = [(''Content-Type'', ''application/json'')],
                  req_body = JsonObject [(''question'', questionToSend)]\<rparr>))"

definition getAiAnswer_resume :: "fetch_result \<Rightarrow> app_state \<Rightarrow> app_state" where
  "getAiAnswer_resume fr s =
     (let s1 =
            (case openai_try fr of
               Inr answer_text \<Rightarrow>
                 s\<lparr>aiAnswer := answer_text, statusMessage := ''AI Answer received!''\<rparr>
             | Inl error_message \<Rightarrow>
                 s\<lparr>statusMessage := ''Error getting AI answer: '' @ error_message
                      @ ''. Please try again.''\<rparr>)
      in s1\<lparr>isLoading := False\<rparr>)"

definition getAiAnswer :: "fetch_result \<Rightarrow> app_state \<Rightarrow> app_state \<times> request option" where
  "getAiAnswer fr s =
     (case getAiAnswer_begin s of
        (s1, None) \<Rightarrow> (s1, None)
      | (s1, Some req) \<Rightarrow> (getAiAnswer_resume fr s1, Some req))"

subsection \<open>Refinement\<close>

definition apiKey :: string where
  "apiKey = []"

definition apiUrl :: string where
  "apiUrl = ''https://generativelanguage.googleapis.com/v1beta/models/gemini-2.0-flash:generateContent?key='' @ apiKey"

definition refine_prompt :: "string \<Rightarrow> string" where
  "refine_prompt t =
     ''Refine the following question to be more clear, concise, and suitable for an AI assistant. Focus on making it a direct query. Do not add any conversational filler. Just the refined question:''
     @ [CHR 0x0A, CHR 0x0A, CHR 0x22] @ t @ [CHR 0x22]"

text \<open>
  The test on the parsed result: \<open>Some text\<close> when the guard
  \<open>candidates && candidates.length > 0 && candidates[0].content &&
  candidates[0].content.parts && candidates[0].content.parts.length > 0\<close> holds,
  with \<open>text = candidates[0].content.parts[0].text\<close>; \<open>None\<close> when it fails.
  An array is truthy also when it is empty, so each array is tested for
  presence first and for its length next.
\<close>

definition first_candidate_text :: "json_body \<Rightarrow> js_string option" where
  "first_candidate_text result =
     (case candidates result of
        None \<Rightarrow> None
      | Some [] \<Rightarrow> None
      | Some (c # cs) \<Rightarrow>
          (case cand_content c of
             None \<Rightarrow> None
           | Some ct \<Rightarrow>
               (case content_parts ct of
                  None \<Rightarrow> None
                | Some [] \<Rightarrow> None
                | Some (p # ps) \<Rightarrow> Some (part_text p))))"

definition gemini_try :: "fetch_result \<Rightarrow> string + js_string option" where
  "gemini_try fr =
     (case fr of
        FetchRejects e \<Rightarrow> Inl e
      | FetchResolves r \<Rightarrow>
          if \<not> ok r then
            Inl (''Gemini API error: '' @ string_of_nat (resp_status r) @ '' - ''
                 @ error_detail r)
          else
            (case resp_json r of
               JsonRejects e \<Rightarrow> Inl e
             | JsonResolves result \<Rightarrow> Inr (first_candidate_text result)))"

definition handleRefineQuestion_begin :: "app_state \<Rightarrow> app_state \<times> request option" where
  "handleRefineQuestion_begin s =
     (if transcribedText s = [] then
        (s\<lparr>statusMessage := ''Please transcribe audio first to refine a question.''\<rparr>, None)
      else
        (s\<lparr>isRefining := True, statusMessage := ''Refining question with Gemini...'',
           refinedQuestion := Str []\<rparr>,
         Some \<lparr>req_url = apiUrl, req_method = ''POST'',
               req_headers = [(''Content-Type'', ''application/json'')],
               req_body = JsonContents
                 [\<lparr>role = ''user'', parts = [refine_prompt (transcribedText s)]\<rparr>]\<rparr>))"

definition handleRefineQuestion_resume :: "fetch_result \<Rightarrow> app_state \<Rightarrow> app_state" where
  "handleRefineQuestion_resume fr s =
     (let s1 =
            (case gemini_try fr of
               Inr (Some text_value) \<Rightarrow>
                 s\<lparr>refinedQuestion := text_value,
                   statusMessage := ''Question refined by Gemini! You can now get an AI answer.''\<rparr>
             | Inr None \<Rightarrow>
                 s\<lparr>statusMessage := ''Gemini did not return a valid refinement. Try again.''\<rparr>
             | Inl error_message \<Rightarrow>
                 s\<lparr>statusMessage := ''Error refining question: '' @ error_message @ ''.''\<rparr>)
      in s1\<lparr>isRefining := False\<rparr>)"

definition handleRefineQuestion ::
    "fetch_result \<Rightarrow> app_state \<Rightarrow> app_state \<times> request option" where
  "handleRefineQuestion fr s =
     (case handleRefineQuestion_begin s of
        (s1, None) \<Rightarrow> (s1, None)
      | (s1, Some req) \<Rightarrow> (handleRefineQuestion_resume fr s1, Some req))"

subsection \<open>States used as concrete inputs\<close>

text \<open>A transcript and an earlier answer are on screen.\<close>

definition answered_state :: app_state where
  "answered_state = initial_state\<lparr>transcribedText := ''hi'', aiAnswer := ''old''\<rparr>"

text \<open>A transcript and its refinement are on screen.\<close>

definition refined_state :: app_state where
  "refined_state =
     initial_state\<lparr>transcribedText := ''um what is a monad'',
                   refinedQuestion := Str ''What is a monad?''\<rparr>"

text \<open>The stream has been acquired on mount; nothing has been recorded yet.\<close>

definition ready_state :: app_state where
  "ready_state = getDisplayMediaAudio (MediaResolves (Some 0)) initial_state"

text \<open>A chunk of \<open>n\<close> bytes, as the recorder delivers it.\<close>

definition chunk_of_size :: "nat \<Rightarrow> blob" where
  "chunk_of_size n = \<lparr>blob_bytes = replicate n 0, blob_type = ''audio/webm''\<rparr>"

text \<open>
  The stream has been acquired; a transcript, a refinement and an answer of an
  earlier cycle are on screen and one chunk is left in the buffer.
\<close>

definition used_state :: app_state where
  "used_state =
     refined_state\<lparr>aiAnswer := ''A monad is a monoid.'', audioChunks := [chunk_of_size 3],
                   audioStreamRef := Some 0\<rparr>"

text \<open>The first recording of a session: \<open>Start Recording\<close> clicked in \<open>ready_state\<close>.\<close>

definition recording_state :: app_state where
  "recording_state = startRecording (MediaResolves (Some 0)) Started ready_state"

definition three_chunks :: "blob list" where
  "three_chunks = [chunk_of_size 4000, chunk_of_size 4000, chunk_of_size 2000]"

text \<open>The response \<open>500 {message: "boom"}\<close>.\<close>

definition boom_response :: response where
  "boom_response =
     \<lparr>resp_status = 500, resp_statusText = ''Internal Server Error'',
      resp_json = JsonResolves \<lparr>message = Str ''boom'', transcription = Undefined,
                                answer = Undefined, candidates = None\<rparr>\<rparr>"

text \<open>The response \<open>200 {transcription: "hello"}\<close>.\<close>

definition hello_response :: response where
  "hello_response =
     \<lparr>resp_status = 200, resp_statusText = ''OK'',
      resp_json = JsonResolves \<lparr>message = Undefined, transcription = Str ''hello'',
                                answer = Undefined, candidates = None\<rparr>\<rparr>"

text \<open>The response \<open>200 {candidates: c}\<close>.\<close>

definition candidates_response :: "candidate list \<Rightarrow> fetch_result" where
  "candidates_response c =
     FetchResolves
       \<lparr>resp_status = 200, resp_statusText = ''OK'',
        resp_json = JsonResolves \<lparr>message = Undefined, transcription = Undefined,
                                  answer = Undefined, candidates = Some c\<rparr>\<rparr>"

subsection \<open>Busy flags\<close>

text \<open>
  The component has two busy flags. \<open>sendAudioForProcessing\<close> and \<open>getAiAnswer\<close>
  both write \<open>isLoading\<close> (as \<open>stopRecording\<close> does when it hands over to the
  transcription); \<open>handleRefineQuestion\<close> writes \<open>isRefining\<close>.
\<close>

datatype stage = Transcribe | Refine | Answer

fun busy :: "stage \<Rightarrow> app_state \<Rightarrow> bool" where
  "busy Transcribe s = isLoading s"
| "busy Refine s = isRefining s"
| "busy Answer s = isLoading s"

fun set_busy :: "stage \<Rightarrow> bool \<Rightarrow> app_state \<Rightarrow> app_state" where
  "set_busy Transcribe v s = s\<lparr>isLoading := v\<rparr>"
| "set_busy Refine v s = s\<lparr>isRefining := v\<rparr>"
| "set_busy Answer v s = s\<lparr>isLoading := v\<rparr>"

section \<open>Properties\<close>

subsection \<open>Auxiliary facts\<close>

lemmas pipeline_defs =
  sendAudioForProcessing_def sendAudioForProcessing_begin_def sendAudioForProcessing_resume_def
  getAiAnswer_def getAiAnswer_begin_def getAiAnswer_resume_def
  handleRefineQuestion_def handleRefineQuestion_begin_def handleRefineQuestion_resume_def

lemma Blob_size: "blob_size (Blob cs t) = sum_list (map blob_size cs)"
  by (induction cs) (simp_all add: Blob_def blob_size_def)

lemma Blob_bytes: "blob_bytes (Blob cs t) = concat (map blob_bytes cs)"
  by (simp add: Blob_def)

lemma blob_size_chunk_of_size [simp]: "blob_size (chunk_of_size n) = n"
  by (simp add: blob_size_def chunk_of_size_def)

lemma three_chunks_size: "blob_size (Blob three_chunks t) = 10000"
  by (simp add: Blob_size three_chunks_def)

lemma string_of_nat_500: "string_of_nat 500 = ''500''"
  by code_simp

text \<open>The chunk buffer under \<open>dataavailable\<close> events.\<close>

lemma ondataavailable_zero: "blob_size c = 0 \<Longrightarrow> ondataavailable c s = s"
  by (simp add: ondataavailable_def)

lemma ondataavailable_append:
  "blob_size c > 0 \<Longrightarrow> ondataavailable c s = s\<lparr>audioChunks := audioChunks s @ [c]\<rparr>"
  by (simp add: ondataavailable_def)

lemma deliver_frame:
  "deliver cs s = s\<lparr>audioChunks := audioChunks s @ filter (\<lambda>c. blob_size c > 0) cs\<rparr>"
  by (induction cs arbitrary: s) (simp_all add: ondataavailable_def)

lemma recording_state_eq:
  "recording_state =
     \<lparr>isRecording = True, audioChunks = [], transcribedText = [],
      refinedQuestion = Str [], aiAnswer = [],
      statusMessage = ''Recording tab/window audio...'',
      isLoading = False, isRefining = False,
      mediaRecorderRef = Some \<lparr>rec_state = Recording, onstop_audioChunks = []\<rparr>,
      audioStreamRef = Some 0\<rparr>"
  by (simp add: recording_state_def ready_state_def getDisplayMediaAudio_def initial_state_def
      startRecording_def startRecording_record_def Let_def)

subsection \<open>The answer stage\<close>

text \<open>
  Claim C1, as stated, fails: \<open>getAiAnswer\<close> clears the stored answer before it
  sends its request, so a failed call does not leave an earlier answer in
  place. Here an answer \<open>old\<close> is on screen and the request is rejected.
\<close>

theorem getAiAnswer_failure_clears_answer:
  "snd (getAiAnswer (FetchRejects ''Failed to fetch'') answered_state) \<noteq> None
   \<and> aiAnswer answered_state = ''old''
   \<and> aiAnswer (fst (getAiAnswer (FetchRejects ''Failed to fetch'') answered_state)) = []"
  by (simp add: getAiAnswer_def getAiAnswer_begin_def getAiAnswer_resume_def openai_try_def
      answered_state_def initial_state_def Let_def)

text \<open>
  Claim C1, amended: when \<open>getAiAnswer\<close> issues its request and the call fails
  (\<open>fetch\<close> rejects, or the response is not \<open>ok\<close>), the state afterwards is the
  state before with the status set to the error message, \<open>isLoading\<close> cleared
  and the answer empty. The transcript, the refined question and every other
  field are as they were.
\<close>

theorem getAiAnswer_failure_frame:
  assumes "or_else (refinedQuestion s) (transcribedText s) \<noteq> []"
    and "fr = FetchRejects e \<or> (fr = FetchResolves r \<and> \<not> ok r)"
  shows "snd (getAiAnswer fr s) \<noteq> None \<and>
         fst (getAiAnswer fr s) =
           s\<lparr>isLoading := False,
             statusMessage := ''Error getting AI answer: ''
               @ (case fr of
                    FetchRejects e \<Rightarrow> e
                  | FetchResolves r \<Rightarrow>
                      ''OpenAI API error: '' @ string_of_nat (resp_status r) @ '' - ''
                      @ error_detail r)
               @ ''. Please try again.'',
             aiAnswer := []\<rparr>"
  using assms
  by (auto simp: getAiAnswer_def getAiAnswer_begin_def getAiAnswer_resume_def openai_try_def
      Let_def)

theorem getAiAnswer_failure_frame_witness:
  "or_else (refinedQuestion answered_state) (transcribedText answered_state) \<noteq> []
   \<and> fst (getAiAnswer (FetchRejects ''Failed to fetch'') answered_state) =
       answered_state\<lparr>isLoading := False,
         statusMessage := ''Error getting AI answer: Failed to fetch. Please try again.'',
         aiAnswer := []\<rparr>
   \<and> transcribedText (fst (getAiAnswer (FetchRejects ''Failed to fetch'') answered_state)) = ''hi''"
  using getAiAnswer_failure_frame
    [of answered_state "FetchRejects ''Failed to fetch''" "''Failed to fetch''"]
  by (simp add: answered_state_def initial_state_def)

text \<open>
  Claim C2: whenever \<open>getAiAnswer\<close> issues its request, the body is the JSON
  object with the single property \<open>question\<close>, whose value is the refined
  question when that is a non-empty string and the transcript otherwise. The
  request of the whole run is the one the synchronous part issues.
\<close>

theorem getAiAnswer_question:
  assumes "snd (getAiAnswer fr s) = Some req"
  shows "(\<forall>r. refinedQuestion s = Str r \<and> r \<noteq> [] \<longrightarrow>
            req_body req = JsonObject [(''question'', r)])
       \<and> (\<not> truthy (refinedQuestion s) \<longrightarrow>
            req_body req = JsonObject [(''question'', transcribedText s)])
       \<and> snd (getAiAnswer_begin s) = Some req"
  using assms
  by (cases "refinedQuestion s")
     (auto simp: getAiAnswer_def getAiAnswer_begin_def Let_def split: if_splits)

theorem getAiAnswer_question_witness:
  "snd (getAiAnswer (FetchRejects []) refined_state)
     = Some \<lparr>req_url = BACKEND_URL @ ''/api/openai'', req_method = ''POST'',
             req_headers = [(''Content-Type'', ''application/json'')],
             req_body = JsonObject [(''question'', ''What is a monad?'')]\<rparr>
   \<and> refinedQuestion refined_state = Str ''What is a monad?''
   \<and> transcribedText refined_state = ''um what is a monad''"
proof -
  have h: "snd (getAiAnswer (FetchRejects []) refined_state)
     = Some \<lparr>req_url = BACKEND_URL @ ''/api/openai'', req_method = ''POST'',
             req_headers = [(''Content-Type'', ''application/json'')],
             req_body = JsonObject [(''question'', ''What is a monad?'')]\<rparr>"
    by (simp add: getAiAnswer_def getAiAnswer_begin_def Let_def refined_state_def
        initial_state_def)
  from getAiAnswer_question [OF h] show ?thesis
    using h by (simp add: refined_state_def initial_state_def)
qed

subsection \<open>Stages without input\<close>

text \<open>
  Claim C3: a transcription run whose payload has size zero issues no request,
  writes the "no audio" status and clears \<open>isLoading\<close>, changing nothing else;
  \<open>handleRefineQuestion\<close> with an empty transcript, and \<open>getAiAnswer\<close> with an
  empty transcript and no refined text, issue no request and only write their
  status.
\<close>

theorem empty_input_no_request:
  "(blob_size (Blob closure_chunks ''audio/webm'') = 0 \<longrightarrow>
      sendAudioForProcessing closure_chunks fr s =
        (s\<lparr>statusMessage := ''No audio recorded from the tab. Please ensure audio is playing and you record for a sufficient duration.'',
           isLoading := False\<rparr>, None))
   \<and> (transcribedText s = [] \<longrightarrow>
      handleRefineQuestion fr s =
        (s\<lparr>statusMessage := ''Please transcribe audio first to refine a question.''\<rparr>, None))
   \<and> (transcribedText s = [] \<and> \<not> truthy (refinedQuestion s) \<longrightarrow>
      getAiAnswer fr s =
        (s\<lparr>statusMessage := ''Please transcribe audio or refine a question first.''\<rparr>, None))"
  by (cases "refinedQuestion s") (simp_all add: pipeline_defs Let_def)

theorem empty_input_no_request_witness:
  "blob_size (Blob [] ''audio/webm'') = 0
   \<and> transcribedText initial_state = []
   \<and> \<not> truthy (refinedQuestion initial_state)
   \<and> snd (sendAudioForProcessing [] (FetchRejects []) initial_state) = None
   \<and> \<not> isLoading (fst (sendAudioForProcessing [] (FetchRejects []) initial_state))
   \<and> snd (handleRefineQuestion (FetchRejects []) initial_state) = None
   \<and> snd (getAiAnswer (FetchRejects []) initial_state) = None"
  using empty_input_no_request [of "[]" "FetchRejects []" initial_state]
  by (simp add: Blob_size initial_state_def)

subsection \<open>Busy flags\<close>

text \<open>
  Claim C4, as stated, fails: the stages do not have a busy flag each. The
  transcription and the answer stage share \<open>isLoading\<close>, so the answer stage
  going in flight marks the transcription stage busy.
\<close>

theorem answer_flag_is_transcribe_flag:
  "\<not> busy Transcribe answered_state
   \<and> busy Transcribe (fst (getAiAnswer_begin answered_state))
   \<and> busy Transcribe (set_busy Answer True answered_state) \<noteq> busy Transcribe answered_state"
  by (simp add: getAiAnswer_begin_def answered_state_def initial_state_def Let_def)

text \<open>
  Claim C4, amended: the refinement stage has a busy flag of its own,
  \<open>isRefining\<close>, independent of the flag \<open>isLoading\<close> that the transcription and
  the answer stage share. Setting or clearing either flag leaves the other as
  it was, and so does every step of every handler: \<open>handleRefineQuestion\<close>
  never changes \<open>isLoading\<close>, and \<open>sendAudioForProcessing\<close>, \<open>getAiAnswer\<close> and
  \<open>stopRecording\<close> never change \<open>isRefining\<close>.
\<close>

theorem refine_flag_independent:
  "busy Transcribe (set_busy Refine v s) = busy Transcribe s
   \<and> busy Answer (set_busy Refine v s) = busy Answer s
   \<and> busy Refine (set_busy Transcribe v s) = busy Refine s
   \<and> busy Refine (set_busy Answer v s) = busy Refine s
   \<and> isLoading (fst (handleRefineQuestion_begin s)) = isLoading s
   \<and> isLoading (handleRefineQuestion_resume fr s) = isLoading s
   \<and> isLoading (fst (handleRefineQuestion fr s)) = isLoading s
   \<and> isRefining (fst (sendAudioForProcessing_begin closure_chunks s)) = isRefining s
   \<and> isRefining (sendAudioForProcessing_resume fr s) = isRefining s
   \<and> isRefining (fst (sendAudioForProcessing closure_chunks fr s)) = isRefining s
   \<and> isRefining (fst (getAiAnswer_begin s)) = isRefining s
   \<and> isRefining (getAiAnswer_resume fr s) = isRefining s
   \<and> isRefining (fst (getAiAnswer fr s)) = isRefining s
   \<and> isRefining (fst (stopRecording s)) = isRefining s"
  by (simp add: pipeline_defs stopRecording_def Let_def
      split: sum.splits option.splits)

subsection \<open>Recording\<close>

text \<open>
  Claim C5: a \<open>startRecording\<close> that starts its recorder (the stream is held or
  is acquired again, and the recorder starts) leaves the chunk buffer, the
  transcript, the refined question and the answer empty, with the recorder
  recording; whatever chunks are delivered afterwards, the buffer holds exactly
  the non-empty ones among them, in order, and the three results stay empty.
\<close>

theorem startRecording_clears:
  assumes "audioStreamRef s \<noteq> None \<or> (\<exists>stream. m = MediaResolves (Some stream))"
    and "s' = startRecording m Started s"
  shows "audioChunks s' = [] \<and> transcribedText s' = [] \<and> refinedQuestion s' = Str []
       \<and> aiAnswer s' = [] \<and> isRecording s'
       \<and> mediaRecorderRef s' = Some \<lparr>rec_state = Recording, onstop_audioChunks = audioChunks s\<rparr>
       \<and> (\<forall>cs. audioChunks (deliver cs s') = filter (\<lambda>c. blob_size c > 0) cs
               \<and> transcribedText (deliver cs s') = []
               \<and> refinedQuestion (deliver cs s') = Str []
               \<and> aiAnswer (deliver cs s') = [])"
proof -
  have cleared: "audioChunks s' = [] \<and> transcribedText s' = [] \<and> refinedQuestion s' = Str []
       \<and> aiAnswer s' = [] \<and> isRecording s'
       \<and> mediaRecorderRef s' = Some \<lparr>rec_state = Recording, onstop_audioChunks = audioChunks s\<rparr>"
    using assms
    by (auto simp: startRecording_def startRecording_record_def Let_def
        split: option.splits media_result.splits)
  then show ?thesis
    by (simp add: deliver_frame)
qed

theorem startRecording_clears_witness:
  "audioStreamRef used_state \<noteq> None
   \<and> audioChunks used_state = [chunk_of_size 3]
   \<and> transcribedText used_state = ''um what is a monad''
   \<and> audioChunks (startRecording (MediaRejects [] []) Started used_state) = []
   \<and> transcribedText (startRecording (MediaRejects [] []) Started used_state) = []
   \<and> refinedQuestion (startRecording (MediaRejects [] []) Started used_state) = Str []
   \<and> aiAnswer (startRecording (MediaRejects [] []) Started used_state) = []
   \<and> audioChunks (deliver [chunk_of_size 0, chunk_of_size 2]
        (startRecording (MediaRejects [] []) Started used_state)) = [chunk_of_size 2]"
proof -
  let ?s' = "startRecording (MediaRejects [] []) Started used_state"
  have h: "audioStreamRef used_state \<noteq> None
           \<or> (\<exists>stream. MediaRejects [] [] = MediaResolves (Some stream))"
    by (simp add: used_state_def)
  note cleared = startRecording_clears [OF h refl]
  from cleared have delivered:
    "audioChunks (deliver [chunk_of_size 0, chunk_of_size 2] ?s')
       = filter (\<lambda>c. blob_size c > 0) [chunk_of_size 0, chunk_of_size 2]"
    by blast
  have before: "audioStreamRef used_state \<noteq> None
      \<and> audioChunks used_state = [chunk_of_size 3]
      \<and> transcribedText used_state = ''um what is a monad''"
    by (simp add: used_state_def refined_state_def initial_state_def)
  from cleared delivered before show ?thesis
    by simp
qed

text \<open>
  Claim C6: \<open>stopRecording\<close> does nothing unless the ref holds a recorder whose
  state is \<open>recording\<close>: the state is returned as it is and \<open>stop()\<close> is not
  called, so no \<open>stop\<close> event follows and nothing is handed to the pipeline.
\<close>

theorem stopRecording_noop:
  assumes "\<forall>r. mediaRecorderRef s = Some r \<longrightarrow> rec_state r \<noteq> Recording"
  shows "stopRecording s = (s, False)"
  using assms by (simp add: stopRecording_def split: option.splits)

theorem stopRecording_noop_witness:
  "mediaRecorderRef ready_state = None
   \<and> stopRecording ready_state = (ready_state, False)
   \<and> snd (stopRecording recording_state)
   \<and> stopRecording (fst (stopRecording recording_state)) = (fst (stopRecording recording_state), False)"
proof -
  have a: "\<forall>r. mediaRecorderRef ready_state = Some r \<longrightarrow> rec_state r \<noteq> Recording"
    by (simp add: ready_state_def getDisplayMediaAudio_def initial_state_def)
  have b: "\<forall>r. mediaRecorderRef (fst (stopRecording recording_state)) = Some r
               \<longrightarrow> rec_state r \<noteq> Recording"
    by (simp add: recording_state_def ready_state_def getDisplayMediaAudio_def initial_state_def
        startRecording_def startRecording_record_def stopRecording_def Let_def)
  show ?thesis
    using stopRecording_noop [OF a] stopRecording_noop [OF b]
    by (simp add: recording_state_def ready_state_def getDisplayMediaAudio_def initial_state_def
        startRecording_def startRecording_record_def stopRecording_def Let_def)
qed

subsection \<open>From the chunks to the payload\<close>

text \<open>
  Claim C7 at its own example. The first recording of a session is started in
  a state whose buffer is empty; three chunks of 4000, 4000 and 2000 bytes are
  delivered and the recording is stopped. The buffer then holds the three
  chunks, 10000 bytes in all, but the recorder's \<open>onstop\<close> handler builds its
  payload from the \<open>audioChunks\<close> of the render in which the recording was
  started, which is empty: no request is issued, whatever the service would
  have answered, and the status reports that no audio was recorded.
\<close>

theorem first_recording_is_not_sent:
  "(case stopRecording (deliver three_chunks recording_state) of
      (s3, stop_called) \<Rightarrow>
        stop_called
        \<and> audioChunks s3 = three_chunks
        \<and> blob_size (Blob (audioChunks s3) ''audio/webm'') = 10000
        \<and> (case mediaRecorderRef s3 of
              None \<Rightarrow> False
            | Some r \<Rightarrow>
                recorder_onstop r fr s3 =
                  (s3\<lparr>statusMessage := ''No audio recorded from the tab. Please ensure audio is playing and you record for a sufficient duration.'',
                      isLoading := False\<rparr>, None)))"
  by (simp add: deliver_frame recording_state_eq stopRecording_def recorder_onstop_def
      sendAudioForProcessing_def sendAudioForProcessing_begin_def Let_def Blob_size
      three_chunks_def)

text \<open>
  The buffer is left as it is by that run, so the next recording closes over
  it: its own chunk is not what is sent; the payload is the previous
  recording.
\<close>

lemma second_recording_sends_first:
  "(case stopRecording (deliver three_chunks recording_state) of
      (s3, stop_called) \<Rightarrow>
        (case mediaRecorderRef s3 of
           None \<Rightarrow> False
         | Some r \<Rightarrow>
             (case stopRecording (deliver [chunk_of_size 1000]
                     (startRecording m Started (fst (recorder_onstop r fr s3)))) of
                (s6, stop_called') \<Rightarrow>
                  audioChunks s6 = [chunk_of_size 1000]
                  \<and> (case mediaRecorderRef s6 of
                        None \<Rightarrow> False
                      | Some r' \<Rightarrow>
                          map_option req_body (snd (recorder_onstop r' fr' s6)) =
                            Some (FormData [(''audio'', Blob three_chunks ''audio/webm'',
                                             ''recording.webm'')])))))"
  by (simp add: deliver_frame recording_state_eq stopRecording_def recorder_onstop_def
      sendAudioForProcessing_def sendAudioForProcessing_begin_def Let_def Blob_size
      startRecording_def startRecording_record_def three_chunks_def)

subsection \<open>The refinement stage\<close>

text \<open>
  Claim C8, as stated, fails at a response that contains no candidate with
  text: when the first candidate has a part without \<open>text\<close>, the guard of
  \<open>handleRefineQuestion\<close> holds, the status announces a refined question and the
  refined question becomes \<open>undefined\<close>.
\<close>

theorem textless_part_counts_as_refined:
  "statusMessage (fst (handleRefineQuestion
      (candidates_response [Candidate (Some (Content (Some [Part Undefined])))]) answered_state))
     = ''Question refined by Gemini! You can now get an AI answer.''
   \<and> statusMessage (fst (handleRefineQuestion
      (candidates_response [Candidate (Some (Content (Some [Part Undefined])))]) answered_state))
     \<noteq> ''Gemini did not return a valid refinement. Try again.''
   \<and> refinedQuestion (fst (handleRefineQuestion
      (candidates_response [Candidate (Some (Content (Some [Part Undefined])))]) answered_state))
     = Undefined"
  by (simp add: handleRefineQuestion_def handleRefineQuestion_begin_def
      handleRefineQuestion_resume_def gemini_try_def first_candidate_text_def
      candidates_response_def ok_def answered_state_def initial_state_def Let_def)

text \<open>
  Claim C8, amended: if the response is \<open>ok\<close> and its \<open>candidates\<close> are absent or
  empty, or the first candidate has no \<open>content\<close>, or that has no \<open>parts\<close> or an
  empty \<open>parts\<close> array, then no error is thrown, the status says that no valid
  refinement was returned, \<open>isRefining\<close> is cleared, the refined question is
  the empty string and everything else, the transcript included, is as it was.
\<close>

theorem no_candidate_soft_failure:
  assumes "transcribedText s \<noteq> []"
    and "fr = FetchResolves r" and "ok r" and "resp_json r = JsonResolves result"
    and "candidates result = None \<or> candidates result = Some []
         \<or> (\<exists>c cs. candidates result = Some (c # cs)
               \<and> (cand_content c = None \<or> cand_content c = Some (Content None)
                    \<or> cand_content c = Some (Content (Some []))))"
  shows "gemini_try fr = Inr None
       \<and> snd (handleRefineQuestion fr s) \<noteq> None
       \<and> fst (handleRefineQuestion fr s) =
           s\<lparr>isRefining := False,
             statusMessage := ''Gemini did not return a valid refinement. Try again.'',
             refinedQuestion := Str []\<rparr>"
proof -
  from assms(5) have "first_candidate_text result = None"
    by (auto simp: first_candidate_text_def)
  with assms(2-4) have g: "gemini_try fr = Inr None"
    by (simp add: gemini_try_def)
  with assms(1) show ?thesis
    by (simp add: handleRefineQuestion_def handleRefineQuestion_begin_def
        handleRefineQuestion_resume_def)
qed

theorem no_candidate_soft_failure_witness:
  "transcribedText answered_state \<noteq> []
   \<and> fst (handleRefineQuestion (candidates_response []) answered_state) =
       answered_state\<lparr>isRefining := False,
         statusMessage := ''Gemini did not return a valid refinement. Try again.'',
         refinedQuestion := Str []\<rparr>
   \<and> transcribedText (fst (handleRefineQuestion (candidates_response []) answered_state)) = ''hi''"
proof -
  have t: "transcribedText answered_state \<noteq> []"
    by (simp add: answered_state_def initial_state_def)
  have r: "candidates_response [] = FetchResolves
       \<lparr>resp_status = 200, resp_statusText = ''OK'',
        resp_json = JsonResolves \<lparr>message = Undefined, transcription = Undefined,
                                  answer = Undefined, candidates = Some []\<rparr>\<rparr>"
    by (simp add: candidates_response_def)
  from no_candidate_soft_failure [OF t r] show ?thesis
    by (simp add: ok_def answered_state_def initial_state_def)
qed

subsection \<open>The transcription stage\<close>

text \<open>
  Claim C9: when the payload is not empty and the transcription service answers
  \<open>500\<close> with a body whose \<open>message\<close> is \<open>boom\<close>, the status afterwards is
  \<open>Error during transcription: STT API error: 500 - boom. Please try again.\<close>,
  which contains \<open>boom\<close>; the transcript is what it was (empty, if it was empty)
  and \<open>isLoading\<close> is cleared.
\<close>

theorem stt_500_boom:
  assumes "blob_size (Blob closure_chunks ''audio/webm'') \<noteq> 0"
    and "resp_status r = 500" and "resp_json r = JsonResolves b" and "message b = Str ''boom''"
    and "s' = fst (sendAudioForProcessing closure_chunks (FetchResolves r) s)"
  shows "snd (sendAudioForProcessing closure_chunks (FetchResolves r) s) \<noteq> None
       \<and> statusMessage s' = ''Error during transcription: STT API error: 500 - boom. Please try again.''
       \<and> str_includes (statusMessage s') ''boom''
       \<and> transcribedText s' = transcribedText s
       \<and> (transcribedText s = [] \<longrightarrow> transcribedText s' = [])
       \<and> \<not> isLoading s'"
proof -
  have e: "stt_try (FetchResolves r) = Inl ''STT API error: 500 - boom''"
    using assms(2-4) by (simp add: stt_try_def ok_def error_detail_def string_of_nat_500)
  have n: "\<not> str_includes ''STT API error: 500 - boom'' ''Failed to fetch''"
    by simp
  have s': "s' = s\<lparr>statusMessage := ''Error during transcription: STT API error: 500 - boom. Please try again.'',
                  isLoading := False, audioChunks := []\<rparr>"
    using assms(1,5) e n
    by (simp add: sendAudioForProcessing_def sendAudioForProcessing_begin_def
        sendAudioForProcessing_resume_def Let_def)
  have i: "str_includes ''Error during transcription: STT API error: 500 - boom. Please try again.'' ''boom''"
    by simp
  show ?thesis
    using assms(1) s' i
    by (simp add: sendAudioForProcessing_def sendAudioForProcessing_begin_def Let_def)
qed

theorem stt_500_boom_witness:
  "blob_size (Blob three_chunks ''audio/webm'') \<noteq> 0
   \<and> transcribedText recording_state = []
   \<and> str_includes (statusMessage (fst (sendAudioForProcessing three_chunks
         (FetchResolves boom_response) recording_state))) ''boom''
   \<and> transcribedText (fst (sendAudioForProcessing three_chunks
         (FetchResolves boom_response) recording_state)) = []
   \<and> \<not> isLoading (fst (sendAudioForProcessing three_chunks
         (FetchResolves boom_response) recording_state))"
proof -
  have a: "blob_size (Blob three_chunks ''audio/webm'') \<noteq> 0"
    by (simp add: three_chunks_size)
  have t: "transcribedText recording_state = []"
    by (simp add: recording_state_def ready_state_def getDisplayMediaAudio_def initial_state_def
      startRecording_def startRecording_record_def Let_def)
  from stt_500_boom [OF a _ _ _ refl, of boom_response _ recording_state] a t show ?thesis
    by (simp add: boom_response_def)
qed

text \<open>
  Claim C10: a transcription run on a non-empty payload issues its request and,
  whatever the outcome of the request, ends with the chunk buffer empty; a run
  that reads the buffer afterwards finds no audio and issues no request.
\<close>

theorem buffer_cleared_after_transcription:
  assumes "blob_size (Blob closure_chunks ''audio/webm'') \<noteq> 0"
  shows "snd (sendAudioForProcessing closure_chunks fr s) \<noteq> None
       \<and> audioChunks (fst (sendAudioForProcessing closure_chunks fr s)) = []
       \<and> audioChunks (sendAudioForProcessing_resume fr s) = []
       \<and> snd (sendAudioForProcessing
               (audioChunks (fst (sendAudioForProcessing closure_chunks fr s))) fr' s'') = None"
proof -
  have r: "audioChunks (sendAudioForProcessing_resume fr s0) = []" for s0
    by (simp add: sendAudioForProcessing_resume_def Let_def split: sum.splits)
  have b: "sendAudioForProcessing closure_chunks fr s =
       (sendAudioForProcessing_resume fr (s\<lparr>statusMessage := ''Sending tab audio for transcription...''\<rparr>),
        snd (sendAudioForProcessing_begin closure_chunks s))
       \<and> snd (sendAudioForProcessing_begin closure_chunks s) \<noteq> None"
    using assms
    by (simp add: sendAudioForProcessing_def sendAudioForProcessing_begin_def Let_def)
  have z: "snd (sendAudioForProcessing [] fr' s'') = None"
    by (simp add: sendAudioForProcessing_def sendAudioForProcessing_begin_def Let_def Blob_size)
  from b r z show ?thesis
    by simp
qed

theorem buffer_cleared_after_transcription_witness:
  "blob_size (Blob three_chunks ''audio/webm'') \<noteq> 0
   \<and> audioChunks (fst (sendAudioForProcessing three_chunks (FetchResolves boom_response)
        (deliver three_chunks recording_state))) = []
   \<and> audioChunks (fst (sendAudioForProcessing three_chunks (FetchRejects ''Failed to fetch'')
        (deliver three_chunks recording_state))) = []
   \<and> audioChunks (fst (sendAudioForProcessing three_chunks (FetchResolves hello_response)
        (deliver three_chunks recording_state))) = []"
proof -
  have a: "blob_size (Blob three_chunks ''audio/webm'') \<noteq> 0"
    by (simp add: three_chunks_size)
  from buffer_cleared_after_transcription [OF a] a show ?thesis
    by simp
qed

end
